theory Spec2Isabelle
  imports Main
begin

section \<open>Data model of the discovery engine (DiscoveryEngine.js)\<close>

text \<open>
  JavaScript values are modelled as follows: a string is a \<open>string\<close>; a field that may be
  \<open>null\<close> or \<open>undefined\<close> is an \<open>option\<close>; a confidence is an \<open>int\<close> (the adapters of the
  repository only produce integers; fractional numbers are outside this model); timestamps
  are milliseconds since the epoch, as \<open>Date.now()\<close> returns them.
\<close>

text \<open>An identifier as built by \<open>prepareDiscoveryIdentifiers\<close>:
  \<open>{type, value, confidence, source}\<close>.\<close>

record discovery_identifier =
  id_type :: string
  id_value :: string
  id_weight :: int
  id_source :: string

text \<open>What an adapter's \<open>discoverAccount\<close> resolves to. \<open>exists\<close> is \<open>true\<close>, \<open>false\<close> or
  \<open>null\<close>; every other field may be missing.\<close>

record probe_result =
  r_exists :: "bool option"
  r_confidence :: "int option"
  r_method :: "string option"
  r_platformId :: "string option"
  r_profileUrl :: "string option"
  r_isVerified :: "bool option"
  r_lastActivity :: "string option"
  r_accountAge :: "int option"
  r_followers :: "int option"
  r_following :: "int option"

record metadata =
  profileUrl :: "string option"
  isVerified :: bool
  lastActivity :: "string option"
  accountAge :: "int option"
  followers :: "int option"
  following :: "int option"

text \<open>The account record pushed by \<open>analyzeDiscoveryResults\<close> (\<open>lastVerified\<close>, a fresh
  \<open>Date\<close>, is left out).\<close>

record account =
  platform :: string
  email :: "string option"
  username :: "string option"
  platformId :: "string option"
  detectionMethod :: string
  confidence :: int
  metadata :: metadata
  acc_status :: string

section \<open>Confidence scoring\<close>

text \<open>\<open>result.confidence || 50\<close>: the operator \<open>||\<close> yields its right operand when the left
  one is falsy, which for a number means missing or \<open>0\<close>.\<close>

definition confidence_or_50 :: "int option \<Rightarrow> int" where
  "confidence_or_50 c = (case c of None \<Rightarrow> 50 | Some n \<Rightarrow> (if n = 0 then 50 else n))"

text \<open>The first \<open>switch\<close> of \<open>calculateAccountConfidence\<close>, on \<open>identifier.source\<close>.\<close>

definition source_boost :: "string \<Rightarrow> int" where
  "source_boost s =
     (if s = ''primary_email'' then 20
      else if s = ''alternative_email'' then 15
      else if s = ''phone_number'' then 10
      else if s = ''common_username'' then 5
      else 0)"

text \<open>The second \<open>switch\<close>, on \<open>result.method\<close>.\<close>

definition method_boost :: "string option \<Rightarrow> int" where
  "method_boost m =
     (if m = Some ''password_reset'' then 15
      else if m = Some ''api_verification'' then 20
      else if m = Some ''public_profile'' then 10
      else if m = Some ''email_enumeration'' then 12
      else 0)"

definition calculateAccountConfidence :: "probe_result \<Rightarrow> discovery_identifier \<Rightarrow> int" where
  "calculateAccountConfidence result ident =
     (let confidence0 = confidence_or_50 (r_confidence result);
          confidence1 = confidence0 + source_boost (id_source ident);
          confidence2 = confidence1 + method_boost (r_method result)
      in min confidence2 100)"

section \<open>Task creation\<close>

text \<open>A platform configuration of the registry; the scheduler only reads its \<open>key\<close>.\<close>

record platform_config =
  key :: string

type_synonym options = "(string \<times> string) list"

record task =
  t_platform :: string
  t_identifier :: discovery_identifier
  t_options :: options

definition phone_platforms :: "string list" where
  "phone_platforms = [''twitter'', ''facebook'', ''whatsapp'', ''telegram'']"

definition platformSupportsIdentifierType :: "platform_config \<Rightarrow> string \<Rightarrow> bool" where
  "platformSupportsIdentifierType p identifierType =
     (if identifierType = ''phone'' then key p \<in> set phone_platforms else True)"

text \<open>The two nested \<open>for\<close> loops at the start of \<open>executeDiscoveryAcrossPlatforms\<close>, with
  the array \<open>tasks\<close> as accumulator.\<close>

fun identifier_loop ::
  "platform_config \<Rightarrow> options \<Rightarrow> discovery_identifier list \<Rightarrow> task list \<Rightarrow> task list" where
  "identifier_loop p opts [] tasks = tasks"
| "identifier_loop p opts (i # rest) tasks =
     (if \<not> platformSupportsIdentifierType p (id_type i)
      then identifier_loop p opts rest tasks
      else identifier_loop p opts rest
             (tasks @ [\<lparr>t_platform = key p, t_identifier = i, t_options = opts\<rparr>]))"

fun platform_loop ::
  "platform_config list \<Rightarrow> discovery_identifier list \<Rightarrow> options \<Rightarrow> task list \<Rightarrow> task list" where
  "platform_loop [] identifiers opts tasks = tasks"
| "platform_loop (p # rest) identifiers opts tasks =
     platform_loop rest identifiers opts (identifier_loop p opts identifiers tasks)"

definition createDiscoveryTasks ::
  "discovery_identifier list \<Rightarrow> platform_config list \<Rightarrow> options \<Rightarrow> task list" where
  "createDiscoveryTasks identifiers platforms opts = platform_loop platforms identifiers opts []"

section \<open>Chunking\<close>

text \<open>\<open>Array.prototype.slice(start, end)\<close>: a negative index counts from the end, both
  indices are clamped to the array.\<close>

definition js_slice :: "'a list \<Rightarrow> int \<Rightarrow> int \<Rightarrow> 'a list" where
  "js_slice xs start fin =
     (let len = int (length xs);
          k = (if start < 0 then max (len + start) 0 else min start len);
          final = (if fin < 0 then max (len + fin) 0 else min fin len)
      in take (nat (final - k)) (drop (nat k) xs))"

text \<open>The loop of \<open>chunkArray\<close>: \<open>for (let i = 0; i < array.length; i += chunkSize)\<close>. Nothing
  in the source makes \<open>chunkSize\<close> positive, so the loop need not end; not returning is
  the value \<open>None\<close>.\<close>

partial_function (option) chunk_loop ::
  "'a list \<Rightarrow> int \<Rightarrow> int \<Rightarrow> 'a list list \<Rightarrow> 'a list list option" where
  "chunk_loop array chunkSize i chunks =
     (if i < int (length array)
      then chunk_loop array chunkSize (i + chunkSize)
             (chunks @ [js_slice array i (i + chunkSize)])
      else Some chunks)"

definition chunkArray :: "'a list \<Rightarrow> int \<Rightarrow> 'a list list option" where
  "chunkArray array chunkSize = chunk_loop array chunkSize 0 []"

section \<open>Executing the tasks\<close>

record engine_config =
  maxConcurrentDiscoveries :: int
  maxRetryAttempts :: int
  delayBetweenRequests :: int


text \<open>A value that is thrown, or that a promise is rejected with: \<open>undefined\<close> or \<open>null\<close>, or
  any other value, of which only the property \<open>message\<close> is read (\<open>None\<close> when it has
  none). An \<open>Error\<close> is \<open>Thrown (Some message)\<close>.\<close>

datatype thrown = Thrown "string option" | Nullish

text \<open>One attempt of a probe, the race of \<open>adapter.discoverAccount\<close> against the timer: the
  adapter's value (possibly \<open>null\<close>), or a rejection; the timeout is the rejection with
  \<open>Error('Discovery timeout')\<close>.\<close>

datatype attempt = Returns "probe_result option" | Throws thrown

text \<open>What leaves a \<open>try\<close> block: a value or an exception.\<close>

datatype attempt_outcome = Resolved "probe_result option" | Threw thrown

text \<open>\<open>retry(fn, maxRetries, baseDelay)\<close> of \<open>utils/helpers\<close>:
  \<open>for (let attempt = 0; attempt <= maxRetries; attempt++)\<close>, with \<open>lastError\<close> as second
  variable; \<open>fn n\<close> is what the \<open>n\<close>-th call of \<open>fn\<close> comes to. The last attempt rethrows its
  exception as it is. An earlier failed attempt logs \<open>error.message\<close>, which raises a
  TypeError when the exception is \<open>undefined\<close> or \<open>null\<close>, and sleeps. The delays are left
  out.\<close>

function retry_loop :: "(nat \<Rightarrow> attempt) \<Rightarrow> int \<Rightarrow> int \<Rightarrow> thrown \<Rightarrow> attempt_outcome" where
  "retry_loop fn maxRetries n lastError =
     (if n \<le> maxRetries
      then (case fn (nat n) of
              Returns v \<Rightarrow> Resolved v
            | Throws e \<Rightarrow>
                (if n = maxRetries then Threw e
                 else (case e of
                         Nullish \<Rightarrow> Threw (Thrown (Some ''Cannot read properties of undefined''))
                       | Thrown m \<Rightarrow> retry_loop fn maxRetries (n + 1) e)))
      else Threw lastError)"
  by pat_completeness auto
termination
  by (relation "measure (\<lambda>(fn, maxRetries, n, lastError). nat (maxRetries + 1 - n))") auto

declare retry_loop.simps [simp del]

definition retry :: "(nat \<Rightarrow> attempt) \<Rightarrow> int \<Rightarrow> attempt_outcome" where
  "retry fn maxRetries = retry_loop fn maxRetries 0 Nullish"

text \<open>\<open>registry.getAdapter(platform)\<close>: the adapter, or \<open>Error('Platform adapter not found:
  ...')\<close>, or what the constructor of the adapter throws, which \<open>getAdapter\<close> rethrows
  after logging its \<open>message\<close>.\<close>

datatype adapter_lookup = AdapterFound | AdapterMissing | ConstructorThrew thrown

text \<open>What the registry and the adapter do for one task: the lookup and, for every attempt,
  its outcome.\<close>

record probe =
  p_lookup :: adapter_lookup
  p_attempt :: "nat \<Rightarrow> attempt"

datatype 'a settled = Fulfilled 'a | Rejected string

text \<open>The object returned by \<open>executeDiscoveryTask\<close> (\<open>duration\<close> and \<open>discoveredAt\<close> are left
  out).\<close>

record discovery =
  d_platform :: string
  d_identifier :: discovery_identifier
  d_result :: "probe_result option"
  d_error :: "string option"
  d_success :: bool

text \<open>The \<open>try\<close> block of \<open>executeDiscoveryTask\<close> up to the end of \<open>await retry(...)\<close>.\<close>

definition try_outcome :: "engine_config \<Rightarrow> probe \<Rightarrow> task \<Rightarrow> attempt_outcome" where
  "try_outcome cfg pr t =
     (case p_lookup pr of
        AdapterMissing \<Rightarrow> Threw (Thrown (Some (''Platform adapter not found: '' @ t_platform t)))
      | ConstructorThrew e \<Rightarrow>
          (case e of
             Nullish \<Rightarrow> Threw (Thrown (Some ''Cannot read properties of undefined''))
           | Thrown m \<Rightarrow> Threw (Thrown m))
      | AdapterFound \<Rightarrow> retry (p_attempt pr) (maxRetryAttempts cfg))"

text \<open>The \<open>catch\<close> block of \<open>executeDiscoveryTask\<close>. It reads \<open>error.message\<close> first: for an
  exception that is \<open>undefined\<close> or \<open>null\<close> this raises a TypeError, which leaves the
  function, so that its promise is rejected.\<close>

definition task_failed :: "task \<Rightarrow> thrown \<Rightarrow> discovery settled" where
  "task_failed t e =
     (case e of
        Nullish \<Rightarrow> Rejected ''Cannot read properties of undefined''
      | Thrown m \<Rightarrow>
          Fulfilled \<lparr>d_platform = t_platform t, d_identifier = t_identifier t, d_result = None,
                     d_error = m, d_success = False\<rparr>)"

text \<open>After the start of its timer the body of \<open>executeDiscoveryTask\<close> is one
  \<open>try\<close>/\<open>catch\<close>. Reading \<open>result.exists\<close> of a \<open>null\<close> result raises a TypeError inside the
  \<open>try\<close>. The timer and the logger are taken not to throw.\<close>

definition executeDiscoveryTask :: "engine_config \<Rightarrow> probe \<Rightarrow> task \<Rightarrow> discovery settled" where
  "executeDiscoveryTask cfg pr t =
     (case try_outcome cfg pr t of
        Resolved (Some result) \<Rightarrow>
          Fulfilled \<lparr>d_platform = t_platform t, d_identifier = t_identifier t,
                     d_result = Some result, d_error = None, d_success = True\<rparr>
      | Resolved None \<Rightarrow> task_failed t (Thrown (Some ''Cannot read properties of null''))
      | Threw e \<Rightarrow> task_failed t e)"






section \<open>Aggregating the results\<close>

record platform_stats =
  searched :: nat
  found :: nat
  errors :: nat

record identifier_stats =
  i_searched :: nat
  i_found :: nat

text \<open>\<open>result && result.exists\<close> is truthy only for a result whose \<open>exists\<close> is \<open>true\<close>.\<close>

definition result_exists :: "probe_result option \<Rightarrow> bool" where
  "result_exists r = (case r of None \<Rightarrow> False | Some res \<Rightarrow> r_exists res = Some True)"

text \<open>\<open>s || d\<close> on a string that may be missing: the empty string is falsy too.\<close>

definition truthy_string :: "string option \<Rightarrow> bool" where
  "truthy_string s = (case s of None \<Rightarrow> False | Some v \<Rightarrow> v \<noteq> [])"

definition make_account :: "string \<Rightarrow> discovery_identifier \<Rightarrow> probe_result \<Rightarrow> account" where
  "make_account p ident result =
     \<lparr>platform = p,
      email = (if id_type ident = ''email'' then Some (id_value ident) else None),
      username = (if id_type ident = ''username'' then Some (id_value ident) else None),
      platformId = (if truthy_string (r_platformId result) then r_platformId result else None),
      detectionMethod =
        (case r_method result of None \<Rightarrow> ''unknown'' | Some m \<Rightarrow> (if m = [] then ''unknown'' else m)),
      confidence = calculateAccountConfidence result ident,
      metadata =
        \<lparr>profileUrl = r_profileUrl result,
         isVerified = (r_isVerified result = Some True),
         lastActivity = r_lastActivity result,
         accountAge = r_accountAge result,
         followers = r_followers result,
         following = r_following result\<rparr>,
      acc_status = ''active''\<rparr>"

definition stats_or_new :: "platform_stats option \<Rightarrow> platform_stats" where
  "stats_or_new s = (case s of None \<Rightarrow> \<lparr>searched = 0, found = 0, errors = 0\<rparr> | Some v \<Rightarrow> v)"

definition istats_or_new :: "identifier_stats option \<Rightarrow> identifier_stats" where
  "istats_or_new s = (case s of None \<Rightarrow> \<lparr>i_searched = 0, i_found = 0\<rparr> | Some v \<Rightarrow> v)"

record analysis_state =
  st_accounts :: "account list"
  st_platformStats :: "string \<rightharpoonup> platform_stats"
  st_identifierStats :: "string \<rightharpoonup> identifier_stats"

text \<open>One turn of the \<open>for\<close> loop of \<open>analyzeDiscoveryResults\<close>. A failed task leaves the
  turn at \<open>continue\<close>, after the platform's \<open>searched\<close> and \<open>errors\<close> counters.\<close>

definition analyze_step :: "analysis_state \<Rightarrow> discovery \<Rightarrow> analysis_state" where
  "analyze_step st d =
     (let p = d_platform d;
          ps = stats_or_new (st_platformStats st p);
          ps1 = ps\<lparr>searched := searched ps + 1\<rparr>
      in if \<not> d_success d
         then st\<lparr>st_platformStats := (st_platformStats st)(p \<mapsto> ps1\<lparr>errors := errors ps1 + 1\<rparr>)\<rparr>
         else
           let hit = result_exists (d_result d);
               ps2 = (if hit then ps1\<lparr>found := found ps1 + 1\<rparr> else ps1);
               accounts' =
                 (case d_result d of
                    None \<Rightarrow> st_accounts st
                  | Some result \<Rightarrow>
                      (if hit then st_accounts st @ [make_account p (d_identifier d) result]
                       else st_accounts st));
               identifierKey = id_type (d_identifier d) @ '':'' @ id_source (d_identifier d);
               s0 = istats_or_new (st_identifierStats st identifierKey);
               s1 = s0\<lparr>i_searched := i_searched s0 + 1\<rparr>;
               s2 = (if hit then s1\<lparr>i_found := i_found s1 + 1\<rparr> else s1)
           in \<lparr>st_accounts = accounts',
               st_platformStats = (st_platformStats st)(p \<mapsto> ps2),
               st_identifierStats = (st_identifierStats st)(identifierKey \<mapsto> s2)\<rparr>)"

definition analyze_loop :: "discovery list \<Rightarrow> analysis_state" where
  "analyze_loop discoveryResults =
     foldl analyze_step
       \<lparr>st_accounts = [], st_platformStats = Map.empty, st_identifierStats = Map.empty\<rparr>
       discoveryResults"

section \<open>Deduplication\<close>

text \<open>The key \<open>`${account.platform}:${account.email || account.username}`\<close>. The email is
  used when it is a non-empty string, the username otherwise; a \<open>null\<close> is printed as
  \<open>null\<close> by the template.\<close>

definition canonical_identifier :: "account \<Rightarrow> string" where
  "canonical_identifier a =
     (case (if truthy_string (email a) then email a else username a) of
        None \<Rightarrow> ''null''
      | Some v \<Rightarrow> v)"

definition account_key :: "account \<Rightarrow> string" where
  "account_key a = platform a @ '':'' @ canonical_identifier a"

text \<open>\<open>Array.prototype.findIndex\<close>: the first index whose element passes, \<open>-1\<close> if none.\<close>

fun findIndex :: "('a \<Rightarrow> bool) \<Rightarrow> 'a list \<Rightarrow> int" where
  "findIndex P [] = - 1"
| "findIndex P (x # xs) =
     (if P x then 0 else (let i = findIndex P xs in if i < 0 then - 1 else i + 1))"

text \<open>The loop of \<open>deduplicateAccounts\<close> with its two variables, the set \<open>seen\<close> and the array
  \<open>deduplicated\<close>.\<close>

fun dedup_loop :: "account list \<Rightarrow> string set \<Rightarrow> account list \<Rightarrow> account list" where
  "dedup_loop [] seen deduplicated = deduplicated"
| "dedup_loop (a # rest) seen deduplicated =
     (let k = account_key a
      in if k \<notin> seen
         then dedup_loop rest (insert k seen) (deduplicated @ [a])
         else
           let existingIndex = findIndex (\<lambda>b. account_key b = k) deduplicated
           in if existingIndex \<ge> 0 \<and>
                 confidence a > confidence (deduplicated ! nat existingIndex)
              then dedup_loop rest seen (deduplicated[nat existingIndex := a])
              else dedup_loop rest seen deduplicated)"

definition deduplicateAccounts :: "account list \<Rightarrow> account list" where
  "deduplicateAccounts accounts = dedup_loop accounts {} []"

text \<open>The value returned by \<open>analyzeDiscoveryResults\<close>. The breach lookup, an external
  service whose answer is only attached to the value, and the timestamp are left out.\<close>

record analysis =
  accounts :: "account list"
  originalAccountCount :: nat
  deduplicatedAccountCount :: nat
  platformStats :: "string \<rightharpoonup> platform_stats"
  identifierStats :: "string \<rightharpoonup> identifier_stats"

definition analyzeDiscoveryResults :: "discovery list \<Rightarrow> analysis" where
  "analyzeDiscoveryResults discoveryResults =
     (let st = analyze_loop discoveryResults;
          deduplicatedAccounts = deduplicateAccounts (st_accounts st)
      in \<lparr>accounts = deduplicatedAccounts,
          originalAccountCount = length (st_accounts st),
          deduplicatedAccountCount = length deduplicatedAccounts,
          platformStats = st_platformStats st,
          identifierStats = st_identifierStats st\<rparr>)"

section \<open>A whole run of the engine\<close>


text \<open>The part of the engine's result object that the service reads.\<close>

record discovery_summary =
  accountsFound :: nat


section \<open>The job manager (DiscoveryService)\<close>

datatype job_status = Starting | InProgress | Completed | Failed | Cancelled | TimedOut

text \<open>\<open>job.progress\<close>; its \<open>message\<close>, a text for display, is left out.\<close>

record progress =
  step :: string
  percentage :: int

text \<open>A job object. The fields \<open>completedAt\<close>, \<open>cancelled\<close>, \<open>results\<close> and \<open>error\<close> do not exist
  until they are assigned.\<close>

record job =
  job_id :: string
  userId :: string
  status :: job_status
  startedAt :: int
  job_options :: options
  job_progress :: progress
  completedAt :: "int option"
  cancelled :: bool
  results :: "discovery_summary option"
  job_error :: "string option"

record service_config =
  maxActiveJobs :: int
  jobTimeoutMs :: int

text \<open>A JavaScript \<open>Map\<close> is a list of entries in insertion order with distinct keys:
  \<open>set\<close> replaces the value of a present key where it stands and appends a new key,
  \<open>delete\<close> removes the entry.\<close>

fun map_set :: "('k \<times> 'v) list \<Rightarrow> 'k \<Rightarrow> 'v \<Rightarrow> ('k \<times> 'v) list" where
  "map_set [] k v = [(k, v)]"
| "map_set ((k', v') # rest) k v =
     (if k' = k then (k, v) # rest else (k', v') # map_set rest k v)"

definition map_delete :: "('k \<times> 'v) list \<Rightarrow> 'k \<Rightarrow> ('k \<times> 'v) list" where
  "map_delete m k = filter (\<lambda>e. fst e \<noteq> k) m"

text \<open>The state of a \<open>DiscoveryService\<close>. Job objects are shared: the entry of \<open>activeJobs\<close>
  and the running \<open>executeDiscovery(job)\<close> hold the same object, while \<open>jobHistory\<close> holds
  copies (\<open>{...job}\<close>). So the objects live in a store, \<open>heap\<close>, from addresses to jobs;
  \<open>next_ref\<close> is the first unused address, and \<open>pending\<close> lists the addresses of the jobs
  whose \<open>executeDiscovery\<close> is waiting for the engine.\<close>

record service =
  heap :: "nat \<Rightarrow> job"
  next_ref :: nat
  activeJobs :: "(string \<times> nat) list"
  jobHistory :: "(string \<times> job) list"
  pending :: "nat list"
  config :: service_config

definition moveJobToHistory :: "service \<Rightarrow> job \<Rightarrow> service" where
  "moveJobToHistory s j =
     (let h = map_set (jobHistory s) (job_id j) j
      in if length h > 100
         then (case h of [] \<Rightarrow> s\<lparr>jobHistory := h\<rparr>
               | (oldestKey, v) # rest \<Rightarrow> s\<lparr>jobHistory := map_delete h oldestKey\<rparr>)
         else s\<lparr>jobHistory := h\<rparr>)"

text \<open>The search \<open>for (const [userId, job] of this.activeJobs) if (job.id === jobId)\<close> of
  \<open>getJobStatus\<close> and \<open>cancelJob\<close>.\<close>

fun find_active :: "(nat \<Rightarrow> job) \<Rightarrow> (string \<times> nat) list \<Rightarrow> string \<Rightarrow> (string \<times> nat) option" where
  "find_active h [] jobId = None"
| "find_active h ((u, r) # rest) jobId =
     (if job_id (h r) = jobId then Some (u, r) else find_active h rest jobId)"

datatype start_error = UserNotFound | MaxJobsReached

text \<open>The value \<open>startDiscovery\<close> resolves to (\<open>message\<close> tells the two cases apart).\<close>

record start_info =
  s_jobId :: string
  s_status :: job_status
  s_message :: string
  s_startedAt :: int

text \<open>\<open>executeDiscovery(job)\<close> up to its \<open>await\<close>: it runs inside \<open>startDiscovery\<close>.\<close>

definition executeDiscovery_begin :: "service \<Rightarrow> nat \<Rightarrow> service" where
  "executeDiscovery_begin s r =
     s\<lparr>heap := (heap s)(r := (heap s r)
          \<lparr>status := InProgress,
           job_progress := \<lparr>step = ''discovering'', percentage = 10\<rparr>\<rparr>),
       pending := pending s @ [r]\<rparr>"

text \<open>\<open>executeDiscovery(job)\<close> from the \<open>await\<close> on: the engine's promise resolved with a
  result or was rejected with a message; the \<open>finally\<close> block runs in both cases.\<close>

definition executeDiscovery_settle ::
  "service \<Rightarrow> nat \<Rightarrow> string + discovery_summary \<Rightarrow> int \<Rightarrow> service" where
  "executeDiscovery_settle s r outcome now =
     (let j = heap s r;
          j' = (case outcome of
                  Inr res \<Rightarrow>
                    j\<lparr>status := Completed, completedAt := Some now, results := Some res,
                      job_progress := \<lparr>step = ''completed'', percentage = 100\<rparr>\<rparr>
                | Inl msg \<Rightarrow>
                    j\<lparr>status := Failed, completedAt := Some now, job_error := Some msg,
                      job_progress := \<lparr>step = ''failed'', percentage = 0\<rparr>\<rparr>);
          s1 = s\<lparr>heap := (heap s)(r := j'), pending := removeAll r (pending s)\<rparr>;
          s2 = moveJobToHistory s1 j'
      in s2\<lparr>activeJobs := map_delete (activeJobs s2) (userId j')\<rparr>)"

text \<open>\<open>startDiscovery(userId, options)\<close>. \<open>userFound\<close> is whether \<open>User.findById\<close> returned a
  user, \<open>newId\<close> what \<open>generateJobId()\<close> returns, \<open>now\<close> the clock.\<close>

definition startDiscovery ::
  "service \<Rightarrow> bool \<Rightarrow> string \<Rightarrow> options \<Rightarrow> string \<Rightarrow> int \<Rightarrow>
   (start_error + start_info) \<times> service" where
  "startDiscovery s userFound uid opts newId now =
     (if \<not> userFound then (Inl UserNotFound, s)
      else case map_of (activeJobs s) uid of
        Some r \<Rightarrow>
          (Inr \<lparr>s_jobId = job_id (heap s r), s_status = InProgress,
                s_message = ''Discovery already in progress'',
                s_startedAt = startedAt (heap s r)\<rparr>, s)
      | None \<Rightarrow>
          if int (length (activeJobs s)) \<ge> maxActiveJobs (config s)
          then (Inl MaxJobsReached, s)
          else
            let j = \<lparr>job_id = newId, userId = uid, status = Starting, startedAt = now,
                     job_options = opts,
                     job_progress = \<lparr>step = ''initializing'', percentage = 0\<rparr>,
                     completedAt = None, cancelled = False, results = None,
                     job_error = None\<rparr>;
                r = next_ref s;
                s1 = s\<lparr>heap := (heap s)(r := j), next_ref := r + 1,
                       activeJobs := map_set (activeJobs s) uid r\<rparr>
            in (Inr \<lparr>s_jobId = newId, s_status = InProgress,
                     s_message = ''Discovery started successfully'', s_startedAt = now\<rparr>,
                executeDiscovery_begin s1 r))"

definition cancelJob :: "service \<Rightarrow> string \<Rightarrow> bool \<times> service" where
  "cancelJob s jobId =
     (case find_active (heap s) (activeJobs s) jobId of
        None \<Rightarrow> (False, s)
      | Some (u, r) \<Rightarrow>
          let j' = (heap s r)\<lparr>status := Cancelled, cancelled := True\<rparr>;
              s1 = s\<lparr>heap := (heap s)(r := j')\<rparr>;
              s2 = moveJobToHistory s1 j'
          in (True, s2\<lparr>activeJobs := map_delete (activeJobs s2) u\<rparr>))"

text \<open>\<open>cleanupStaleJobs\<close>: the loop visits the entries of \<open>activeJobs\<close> in order and deletes
  only the entry it is visiting.\<close>

fun cleanup_loop :: "(string \<times> nat) list \<Rightarrow> int \<Rightarrow> service \<Rightarrow> service" where
  "cleanup_loop [] now s = s"
| "cleanup_loop ((u, r) # rest) now s =
     (if now - startedAt (heap s r) > jobTimeoutMs (config s)
      then
        let j' = (heap s r)\<lparr>status := TimedOut, completedAt := Some now,
                            job_error := Some ''Job timed out''\<rparr>;
            s1 = s\<lparr>heap := (heap s)(r := j')\<rparr>;
            s2 = moveJobToHistory s1 j'
        in cleanup_loop rest now (s2\<lparr>activeJobs := map_delete (activeJobs s2) u\<rparr>)
      else cleanup_loop rest now s)"

definition cleanupStaleJobs :: "service \<Rightarrow> int \<Rightarrow> service" where
  "cleanupStaleJobs s now = cleanup_loop (activeJobs s) now s"

text \<open>\<open>getJobStatus(jobId)\<close>, reduced to the \<open>status\<close> field of the answer; \<open>None\<close> is \<open>null\<close>.\<close>

definition getJobStatus :: "service \<Rightarrow> string \<Rightarrow> job_status option" where
  "getJobStatus s jobId =
     (case find_active (heap s) (activeJobs s) jobId of
        Some (u, r) \<Rightarrow> Some (status (heap s r))
      | None \<Rightarrow> map_option status (map_of (jobHistory s) jobId))"

text \<open>The steps of the job manager: the calls of its surface, the timer of the reaper, and
  the engine's promise of a job settling. A promise settles once, so settling an address
  that is not pending is no step.\<close>

datatype event =
    StartDiscovery bool string options string int
  | CancelJob string
  | DiscoverySettled nat "string + discovery_summary" int
  | CleanupTick int

fun step_service :: "service \<Rightarrow> event \<Rightarrow> service" where
  "step_service s (StartDiscovery userFound uid opts newId now) =
     snd (startDiscovery s userFound uid opts newId now)"
| "step_service s (CancelJob jobId) = snd (cancelJob s jobId)"
| "step_service s (DiscoverySettled r outcome now) =
     (if r \<in> set (pending s) then executeDiscovery_settle s r outcome now else s)"
| "step_service s (CleanupTick now) = cleanupStaleJobs s now"

definition run_service :: "service \<Rightarrow> event list \<Rightarrow> service" where
  "run_service s evs = foldl step_service s evs"

definition no_job :: job where
  "no_job = \<lparr>job_id = [], userId = [], status = Starting, startedAt = 0, job_options = [],
             job_progress = \<lparr>step = [], percentage = 0\<rparr>, completedAt = None,
             cancelled = False, results = None, job_error = None\<rparr>"

text \<open>\<open>new DiscoveryService(config)\<close>: no job object yet, both maps empty.\<close>

definition new_service :: "service_config \<Rightarrow> service" where
  "new_service cfg =
     \<lparr>heap = (\<lambda>r. no_job), next_ref = 0, activeJobs = [], jobHistory = [], pending = [],
      config = cfg\<rparr>"

definition default_service_config :: service_config where
  "default_service_config = \<lparr>maxActiveJobs = 10, jobTimeoutMs = 300000\<rparr>"

section \<open>The specification's formulas and observations\<close>

text \<open>The confidence as the specification words it: the probe's own confidence, 50 when
  it is absent, plus the bonus of the identifier's provenance, plus the bonus of the
  detection method, capped at 100.\<close>

definition claimed_confidence :: "probe_result \<Rightarrow> discovery_identifier \<Rightarrow> int" where
  "claimed_confidence result ident =
     min 100
       ((case r_confidence result of None \<Rightarrow> 50 | Some c \<Rightarrow> c)
        + (if id_source ident = ''primary_email'' then 20
           else if id_source ident = ''alternative_email'' then 15
           else if id_source ident = ''phone_number'' then 10
           else if id_source ident = ''common_username'' then 5 else 0)
        + (if r_method result = Some ''password_reset'' then 15
           else if r_method result = Some ''api_verification'' then 20
           else if r_method result = Some ''public_profile'' then 10
           else if r_method result = Some ''email_enumeration'' then 12 else 0))"






text \<open>The accounts one turn of the analysis loop pushes.\<close>

definition new_accounts :: "discovery \<Rightarrow> account list" where
  "new_accounts d =
     (case d_result d of
        None \<Rightarrow> []
      | Some r \<Rightarrow>
          (if d_success d \<and> r_exists r = Some True
           then [make_account (d_platform d) (d_identifier d) r] else []))"

section \<open>Concrete inputs\<close>

definition bare_result :: probe_result where
  "bare_result =
     \<lparr>r_exists = Some True, r_confidence = None, r_method = None, r_platformId = None,
      r_profileUrl = None, r_isVerified = None, r_lastActivity = None, r_accountAge = None,
      r_followers = None, r_following = None\<rparr>"

definition primary_email :: discovery_identifier where
  "primary_email =
     \<lparr>id_type = ''email'', id_value = ''ann@example.org'', id_weight = 100,
      id_source = ''primary_email''\<rparr>"


definition name_variation :: discovery_identifier where
  "name_variation =
     \<lparr>id_type = ''username'', id_value = ''annlee'', id_weight = 50,
      id_source = ''name_variation''\<rparr>"

definition phone_number :: "string \<Rightarrow> discovery_identifier" where
  "phone_number v =
     \<lparr>id_type = ''phone'', id_value = v, id_weight = 85, id_source = ''phone_number''\<rparr>"

definition found_by :: "string \<Rightarrow> discovery_identifier \<Rightarrow> probe_result \<Rightarrow> discovery" where
  "found_by p ident result =
     \<lparr>d_platform = p, d_identifier = ident, d_result = Some result, d_error = None,
      d_success = True\<rparr>"

definition empty_analysis :: analysis_state where
  "empty_analysis =
     \<lparr>st_accounts = [], st_platformStats = Map.empty, st_identifierStats = Map.empty\<rparr>"





definition two_platforms :: "platform_config list" where
  "two_platforms = [\<lparr>key = ''twitter''\<rparr>, \<lparr>key = ''linkedin''\<rparr>]"

definition three_identifiers :: "discovery_identifier list" where
  "three_identifiers = [primary_email, phone_number ''+15550100'', phone_number ''+15550101'']"









definition small_service :: service where
  "small_service = new_service \<lparr>maxActiveJobs = 1, jobTimeoutMs = 300000\<rparr>"

definition busy_service :: service where
  "busy_service = snd (startDiscovery small_service True ''ann'' [] ''job_1'' 1000)"

definition cancel_then_finish :: "event list" where
  "cancel_then_finish =
     [StartDiscovery True ''ann'' [] ''job_1'' 1000,
      CancelJob ''job_1'',
      DiscoverySettled 0 (Inr \<lparr>accountsFound = 2\<rparr>) 9000]"

text \<open>A job is cancelled, the user starts again, and then the engine's promise of the
  cancelled job resolves.\<close>

definition restart_then_finish :: "event list" where
  "restart_then_finish =
     [StartDiscovery True ''ann'' [] ''job_1'' 1000,
      CancelJob ''job_1'',
      StartDiscovery True ''ann'' [] ''job_2'' 2000,
      DiscoverySettled 0 (Inr \<lparr>accountsFound = 2\<rparr>) 9000]"

definition after_restart :: service where
  "after_restart = run_service (new_service default_service_config) restart_then_finish"

text \<open>The same with the reaper in the place of the cancellation.\<close>

definition timeout_restart_then_finish :: "event list" where
  "timeout_restart_then_finish =
     [StartDiscovery True ''ann'' [] ''job_1'' 1000,
      CleanupTick 400000,
      StartDiscovery True ''ann'' [] ''job_2'' 401000,
      DiscoverySettled 0 (Inr \<lparr>accountsFound = 2\<rparr>) 402000]"

definition after_timeout_restart :: service where
  "after_timeout_restart =
     run_service (new_service default_service_config) timeout_restart_then_finish"

section \<open>Confidence of the accounts\<close>

lemma claimed_confidence_boosts:
  "claimed_confidence r i =
     min 100 ((case r_confidence r of None \<Rightarrow> 50 | Some c \<Rightarrow> c)
              + source_boost (id_source i) + method_boost (r_method r))"
  unfolding claimed_confidence_def source_boost_def method_boost_def by (rule refl)

text \<open>The code computes the specification's formula, except that a probe confidence of
  \<open>0\<close> counts as absent.\<close>

lemma calculateAccountConfidence_claimed:
  "calculateAccountConfidence r i =
     claimed_confidence (if r_confidence r = Some 0 then r\<lparr>r_confidence := None\<rparr> else r) i"
proof (cases "r_confidence r")
  case None
  then show ?thesis
    by (simp add: calculateAccountConfidence_def claimed_confidence_boosts
        confidence_or_50_def min.commute)
next
  case (Some c)
  then show ?thesis
    by (cases "c = 0")
       (simp_all add: calculateAccountConfidence_def claimed_confidence_boosts
        confidence_or_50_def min.commute)
qed

lemma calculateAccountConfidence_le_100: "calculateAccountConfidence r i \<le> 100"
  by (simp add: calculateAccountConfidence_def Let_def)

lemma source_boost_nonneg: "0 \<le> source_boost s"
  by (simp add: source_boost_def)

lemma method_boost_nonneg: "0 \<le> method_boost m"
  by (simp add: method_boost_def)

text \<open>The lower bound holds for a probe that reports no confidence or a non-negative
  one; nothing in \<open>calculateAccountConfidence\<close> raises a negative score.\<close>

lemma calculateAccountConfidence_ge_0:
  assumes "case r_confidence r of None \<Rightarrow> True | Some c \<Rightarrow> 0 \<le> c"
  shows "0 \<le> calculateAccountConfidence r i"
proof -
  have "0 \<le> confidence_or_50 (r_confidence r)"
    using assms by (simp add: confidence_or_50_def split: option.splits)
  with source_boost_nonneg [of "id_source i"] method_boost_nonneg [of "r_method r"]
  show ?thesis by (simp add: calculateAccountConfidence_def Let_def)
qed

lemma confidence_make_account:
  "confidence (make_account p i r) = calculateAccountConfidence r i"
  by (simp add: make_account_def)

lemma analyze_step_accounts:
  "st_accounts (analyze_step st d) = st_accounts st @ new_accounts d"
  by (simp add: analyze_step_def new_accounts_def Let_def result_exists_def
      split: option.splits)


text \<open>
  C1 says that every account of the aggregated list has a confidence between 0 and 100,
  whatever the probes returned. The score is only capped from above
  (\<open>Math.min(confidence, 100)\<close>), while the comment of the function promises a score
  in 0-100: a probe that reports the confidence \<open>-30\<close> for a name variation, with no
  known method, gives an aggregated account of confidence \<open>-30\<close>.
\<close>

theorem negative_confidence_survives:
  "map confidence
     (accounts (analyzeDiscoveryResults
        [found_by ''twitter'' name_variation (bare_result\<lparr>r_confidence := Some (- 30)\<rparr>)]))
   = [- 30]"
  by (simp add: analyzeDiscoveryResults_def analyze_loop_def analyze_step_accounts
      new_accounts_def found_by_def bare_result_def name_variation_def deduplicateAccounts_def
      confidence_make_account calculateAccountConfidence_def confidence_or_50_def
      source_boost_def method_boost_def Let_def)

text \<open>
  C2, as amended: for every successful probe result with \<open>exists = true\<close> the aggregator
  pushes one account whose confidence is the probe's own confidence (50 when it is absent
  or 0) plus the bonus of the identifier's source (primary email 20, alternative email 15,
  phone 10, username 5) plus the bonus of the detection method (password reset 15, API
  verification 20, public profile 10, email enumeration 12), capped at 100; a primary
  email found by password reset with confidence 70 gets 100.
\<close>

theorem aggregator_confidence:
  assumes "d_success d" and "d_result d = Some r" and "r_exists r = Some True"
  shows "\<exists>a. st_accounts (analyze_step st d) = st_accounts st @ [a] \<and>
           confidence a =
             claimed_confidence
               (if r_confidence r = Some 0 then r\<lparr>r_confidence := None\<rparr> else r)
               (d_identifier d) \<and>
           (id_source (d_identifier d) = ''primary_email'' \<and>
            r_method r = Some ''password_reset'' \<and> r_confidence r = Some 70
            \<longrightarrow> confidence a = 100)"
proof -
  let ?a = "make_account (d_platform d) (d_identifier d) r"
  have acc: "st_accounts (analyze_step st d) = st_accounts st @ [?a]"
    using assms by (simp add: analyze_step_accounts new_accounts_def)
  have conf: "confidence ?a =
      claimed_confidence
        (if r_confidence r = Some 0 then r\<lparr>r_confidence := None\<rparr> else r) (d_identifier d)"
    by (simp add: confidence_make_account calculateAccountConfidence_claimed)
  have ex: "confidence ?a = 100"
    if "id_source (d_identifier d) = ''primary_email''"
      "r_method r = Some ''password_reset''" "r_confidence r = Some 70"
    using that
    by (simp add: confidence_make_account calculateAccountConfidence_claimed
        claimed_confidence_def)
  from acc conf ex show ?thesis by blast
qed

theorem aggregator_confidence_witness:
  "\<exists>a. st_accounts
          (analyze_step empty_analysis
             (found_by ''twitter'' primary_email
                (bare_result\<lparr>r_confidence := Some 70, r_method := Some ''password_reset''\<rparr>)))
        = [a] \<and> confidence a = 100"
proof -
  let ?r = "bare_result\<lparr>r_confidence := Some 70, r_method := Some ''password_reset''\<rparr>"
  let ?d = "found_by ''twitter'' primary_email ?r"
  have d: "d_success ?d" "d_result ?d = Some ?r" "r_exists ?r = Some True"
    by (simp_all add: found_by_def bare_result_def)
  have i: "id_source (d_identifier ?d) = ''primary_email'' \<and>
      r_method ?r = Some ''password_reset'' \<and> r_confidence ?r = Some 70"
    by (simp add: found_by_def primary_email_def)
  have e: "st_accounts empty_analysis = []" by (simp add: empty_analysis_def)
  from aggregator_confidence [OF d, of empty_analysis] i e show ?thesis by auto
qed

text \<open>As C2 is worded, a probe confidence that is present counts as it is. A probe that
  reports \<open>0\<close> for a primary email found by password reset gets 50 + 20 + 15 = 85 from the
  code, 0 + 20 + 15 = 35 from the formula.\<close>

theorem zero_confidence_counterexample:
  "calculateAccountConfidence
     (bare_result\<lparr>r_confidence := Some 0, r_method := Some ''password_reset''\<rparr>) primary_email
     = 85 \<and>
   claimed_confidence
     (bare_result\<lparr>r_confidence := Some 0, r_method := Some ''password_reset''\<rparr>) primary_email
     = 35"
  by (simp add: calculateAccountConfidence_def claimed_confidence_def confidence_or_50_def
      source_boost_def method_boost_def bare_result_def primary_email_def)

section \<open>Deduplication keeps one account per key, the best one\<close>















section \<open>The task set\<close>

lemma identifier_loop_eq:
  "identifier_loop p opts ids tasks =
     tasks @ map (\<lambda>i. \<lparr>t_platform = key p, t_identifier = i, t_options = opts\<rparr>)
               (filter (\<lambda>i. platformSupportsIdentifierType p (id_type i)) ids)"
  by (induction ids arbitrary: tasks) simp_all

lemma platform_loop_eq:
  "platform_loop ps ids opts tasks =
     tasks @ concat (map (\<lambda>p. map (\<lambda>i. \<lparr>t_platform = key p, t_identifier = i, t_options = opts\<rparr>)
               (filter (\<lambda>i. platformSupportsIdentifierType p (id_type i)) ids)) ps)"
  by (induction ps arbitrary: tasks) (simp_all add: identifier_loop_eq)

lemma supports_iff:
  "platformSupportsIdentifierType p ty =
     (ty \<noteq> ''phone'' \<or> key p \<in> {''twitter'', ''facebook'', ''whatsapp'', ''telegram''})"
  by (simp add: platformSupportsIdentifierType_def phone_platforms_def)

text \<open>
  C4: the scheduler creates, platform by platform and identifier by identifier, one task
  for every pair of the cross-join that the platform supports, where only phone
  identifiers are ever unsupported, on every platform outside the list twitter, facebook,
  whatsapp, telegram. Three identifiers of which one is an email, probed on a platform
  \<open>A\<close> that supports all of them and a platform \<open>B\<close> that supports the email only, give
  four tasks.
\<close>

theorem tasks_cross_join:
  "createDiscoveryTasks ids ps opts =
     concat (map (\<lambda>p. map (\<lambda>i. \<lparr>t_platform = key p, t_identifier = i, t_options = opts\<rparr>)
        (filter (\<lambda>i. id_type i \<noteq> ''phone'' \<or>
                     key p \<in> {''twitter'', ''facebook'', ''whatsapp'', ''telegram''}) ids)) ps) \<and>
   (length ids = 3 \<and> length (filter (\<lambda>i. id_type i = ''email'') ids) = 1 \<and>
    (\<forall>i\<in>set ids. platformSupportsIdentifierType A (id_type i)) \<and>
    (\<forall>i\<in>set ids. platformSupportsIdentifierType B (id_type i) = (id_type i = ''email''))
    \<longrightarrow> length (createDiscoveryTasks ids [A, B] opts) = 4)"
proof
  show "createDiscoveryTasks ids ps opts =
     concat (map (\<lambda>p. map (\<lambda>i. \<lparr>t_platform = key p, t_identifier = i, t_options = opts\<rparr>)
        (filter (\<lambda>i. id_type i \<noteq> ''phone'' \<or>
                     key p \<in> {''twitter'', ''facebook'', ''whatsapp'', ''telegram''}) ids)) ps)"
    unfolding createDiscoveryTasks_def platform_loop_eq supports_iff by simp
next
  show "length ids = 3 \<and> length (filter (\<lambda>i. id_type i = ''email'') ids) = 1 \<and>
    (\<forall>i\<in>set ids. platformSupportsIdentifierType A (id_type i)) \<and>
    (\<forall>i\<in>set ids. platformSupportsIdentifierType B (id_type i) = (id_type i = ''email''))
    \<longrightarrow> length (createDiscoveryTasks ids [A, B] opts) = 4"
  proof (intro impI, elim conjE)
    assume len: "length ids = 3" and em: "length (filter (\<lambda>i. id_type i = ''email'') ids) = 1"
      and a: "\<forall>i\<in>set ids. platformSupportsIdentifierType A (id_type i)"
      and b: "\<forall>i\<in>set ids. platformSupportsIdentifierType B (id_type i) = (id_type i = ''email'')"
    have fa: "filter (\<lambda>i. platformSupportsIdentifierType A (id_type i)) ids = ids"
      using a by simp
    have fb: "filter (\<lambda>i. platformSupportsIdentifierType B (id_type i)) ids =
        filter (\<lambda>i. id_type i = ''email'') ids"
      using b by (intro filter_cong) auto
    show "length (createDiscoveryTasks ids [A, B] opts) = 4"
      by (simp add: createDiscoveryTasks_def platform_loop_eq fa fb len em)
  qed
qed

theorem tasks_cross_join_witness:
  "length (createDiscoveryTasks three_identifiers two_platforms []) = 4"
proof -
  have h: "length three_identifiers = 3 \<and>
      length (filter (\<lambda>i. id_type i = ''email'') three_identifiers) = 1 \<and>
      (\<forall>i\<in>set three_identifiers.
         platformSupportsIdentifierType \<lparr>key = ''twitter''\<rparr> (id_type i)) \<and>
      (\<forall>i\<in>set three_identifiers.
         platformSupportsIdentifierType \<lparr>key = ''linkedin''\<rparr> (id_type i) =
           (id_type i = ''email''))"
    by (simp add: three_identifiers_def primary_email_def phone_number_def
        platformSupportsIdentifierType_def phone_platforms_def)
  from tasks_cross_join [of three_identifiers "[]" "[]" "\<lparr>key = ''twitter''\<rparr>"
      "\<lparr>key = ''linkedin''\<rparr>"] h
  show ?thesis by (simp add: two_platforms_def)
qed

section \<open>Chunks and their order of execution\<close>









text \<open>With a chunk size of \<open>0\<close> the loop of \<open>chunkArray\<close> never ends on a non-empty array.\<close>

lemma chunk_loop_stuck:
  assumes "chunk_loop arr n i chunks = Some y"
  shows "\<not> (n = 0 \<and> i < int (length arr))"
proof (rule chunk_loop.raw_induct
    [where P = "\<lambda>arr n i chunks y. \<not> (n = 0 \<and> i < int (length arr))", OF _ assms])
  fix f :: "'a list \<Rightarrow> int \<Rightarrow> int \<Rightarrow> 'a list list \<Rightarrow> 'a list list option"
    and arr n i chunks y
  assume ih: "\<And>arr n i chunks y. f arr n i chunks = Some y \<Longrightarrow> \<not> (n = 0 \<and> i < int (length arr))"
    and eq: "(if i < int (length arr)
        then f arr n (i + n) (chunks @ [js_slice arr i (i + n)]) else Some chunks) = Some y"
  show "\<not> (n = 0 \<and> i < int (length arr))"
  proof
    assume a: "n = 0 \<and> i < int (length arr)"
    with eq have "f arr n (i + n) (chunks @ [js_slice arr i (i + n)]) = Some y" by simp
    from ih [OF this] a show False by simp
  qed
qed

lemma chunkArray_zero: "arr \<noteq> [] \<Longrightarrow> chunkArray arr 0 = None"
  using chunk_loop_stuck [of arr 0 0 "[]"] by (cases "chunkArray arr 0") (auto simp: chunkArray_def)





section \<open>What becomes of a failed task\<close>









lemma executeDiscoveryTask_rejected:
  "try_outcome cfg pr t = Threw Nullish \<Longrightarrow>
   executeDiscoveryTask cfg pr t = Rejected ''Cannot read properties of undefined''"
  by (simp add: executeDiscoveryTask_def task_failed_def)





lemma heap_moveJobToHistory [simp]: "heap (moveJobToHistory s j) = heap s"
  by (simp add: moveJobToHistory_def Let_def split: list.splits)








section \<open>Starting a job\<close>

lemma map_of_map_set: "map_of (map_set m k v) k = Some v"
  by (induction m k v rule: map_set.induct) simp_all

lemma length_map_set_new: "map_of m k = None \<Longrightarrow> length (map_set m k v) = length m + 1"
  by (induction m k v rule: map_set.induct) (auto split: if_splits)

lemma startDiscovery_existing:
  "map_of (activeJobs s) u = Some r \<Longrightarrow>
   startDiscovery s True u opts newId now =
     (Inr \<lparr>s_jobId = job_id (heap s r), s_status = InProgress,
           s_message = ''Discovery already in progress'',
           s_startedAt = startedAt (heap s r)\<rparr>, s)"
  by (simp add: startDiscovery_def)

lemma startDiscovery_new:
  assumes "map_of (activeJobs s) u = None"
    and "int (length (activeJobs s)) < maxActiveJobs (config s)"
  shows "\<exists>s1. startDiscovery s True u opts newId now =
           (Inr \<lparr>s_jobId = newId, s_status = InProgress,
                 s_message = ''Discovery started successfully'', s_startedAt = now\<rparr>, s1) \<and>
         map_of (activeJobs s1) u = Some (next_ref s) \<and>
         job_id (heap s1 (next_ref s)) = newId \<and>
         status (heap s1 (next_ref s)) = InProgress \<and>
         length (activeJobs s1) = length (activeJobs s) + 1"
  using assms
  by (simp add: startDiscovery_def Let_def executeDiscovery_begin_def map_of_map_set
      length_map_set_new)

lemma busy_active: "activeJobs busy_service = [(''ann'', 0)]"
  by (simp add: busy_service_def small_service_def new_service_def startDiscovery_def Let_def
      executeDiscovery_begin_def)

lemma busy_config: "maxActiveJobs (config busy_service) = 1"
  by (simp add: busy_service_def small_service_def new_service_def startDiscovery_def Let_def
      executeDiscovery_begin_def)

lemma busy_job: "job_id (heap busy_service 0) = ''job_1''"
  by (simp add: busy_service_def small_service_def new_service_def startDiscovery_def Let_def
      executeDiscovery_begin_def)

text \<open>A call of \<open>startDiscovery\<close> for a user who is found and has an entry in the registry
  of active jobs returns the id of that job and leaves the state of the service as it
  is; so of two calls in a row for the same user, the first of which starts a job, the
  second returns the job id of the first and starts no job.\<close>

lemma startDiscovery_active_entry:
  "(map_of (activeJobs s) u = Some r \<longrightarrow>
      startDiscovery s True u opts newId now =
        (Inr \<lparr>s_jobId = job_id (heap s r), s_status = InProgress,
              s_message = ''Discovery already in progress'',
              s_startedAt = startedAt (heap s r)\<rparr>, s)) \<and>
   (map_of (activeJobs s) u = None \<and> int (length (activeJobs s)) < maxActiveJobs (config s) \<longrightarrow>
      (\<exists>d1 d2 s1.
         startDiscovery s True u opts newId now = (Inr d1, s1) \<and>
         startDiscovery s1 True u opts' newId' now' = (Inr d2, s1) \<and>
         s_jobId d1 = newId \<and> s_jobId d2 = s_jobId d1 \<and>
         length (activeJobs s1) = length (activeJobs s) + 1))"
proof (intro conjI impI)
  assume "map_of (activeJobs s) u = Some r"
  then show "startDiscovery s True u opts newId now =
        (Inr \<lparr>s_jobId = job_id (heap s r), s_status = InProgress,
              s_message = ''Discovery already in progress'',
              s_startedAt = startedAt (heap s r)\<rparr>, s)"
    by (rule startDiscovery_existing)
next
  assume a: "map_of (activeJobs s) u = None \<and> int (length (activeJobs s)) < maxActiveJobs (config s)"
  then obtain s1 where s1:
    "startDiscovery s True u opts newId now =
       (Inr \<lparr>s_jobId = newId, s_status = InProgress,
             s_message = ''Discovery started successfully'', s_startedAt = now\<rparr>, s1)"
    "map_of (activeJobs s1) u = Some (next_ref s)"
    "job_id (heap s1 (next_ref s)) = newId"
    "length (activeJobs s1) = length (activeJobs s) + 1"
    using startDiscovery_new [of s u opts newId now] by blast
  from startDiscovery_existing [OF s1(2), of opts' newId' now'] s1
  show "\<exists>d1 d2 s1.
         startDiscovery s True u opts newId now = (Inr d1, s1) \<and>
         startDiscovery s1 True u opts' newId' now' = (Inr d2, s1) \<and>
         s_jobId d1 = newId \<and> s_jobId d2 = s_jobId d1 \<and>
         length (activeJobs s1) = length (activeJobs s) + 1"
    by simp
qed

text \<open>
  C8: when the registry holds at least \<open>maxActiveJobs\<close> jobs, a call of \<open>startDiscovery\<close>
  for a user without an active job fails and leaves the state of the service as it is;
  the error is the one of the job limit whenever the user exists (for an unknown user
  the lookup fails first).
\<close>

theorem startDiscovery_capacity:
  assumes "map_of (activeJobs s) u = None"
    and "int (length (activeJobs s)) \<ge> maxActiveJobs (config s)"
  shows "startDiscovery s userFound u opts newId now =
           (Inl (if userFound then MaxJobsReached else UserNotFound), s)"
  using assms by (simp add: startDiscovery_def)

theorem startDiscovery_capacity_witness:
  "startDiscovery busy_service True ''bob'' [] ''job_2'' 2000 = (Inl MaxJobsReached, busy_service)"
  using startDiscovery_capacity [of busy_service "''bob''" True "[]" "''job_2''" 2000]
  by (simp add: busy_active busy_config)

text \<open>
  C10: the registry is consulted before the limit. A user with an active job gets the
  description of that job, not the error of the job limit, also when the registry holds
  \<open>maxActiveJobs\<close> jobs or more; the state of the service stays as it is.
\<close>

theorem startDiscovery_existing_at_capacity:
  assumes "map_of (activeJobs s) u = Some r"
    and "int (length (activeJobs s)) \<ge> maxActiveJobs (config s)"
  shows "startDiscovery s True u opts newId now =
           (Inr \<lparr>s_jobId = job_id (heap s r), s_status = InProgress,
                 s_message = ''Discovery already in progress'',
                 s_startedAt = startedAt (heap s r)\<rparr>, s) \<and>
         fst (startDiscovery s True u opts newId now) \<noteq> Inl MaxJobsReached"
  using startDiscovery_existing [OF assms(1)] by simp

theorem startDiscovery_existing_at_capacity_witness:
  "s_jobId (projr (fst (startDiscovery busy_service True ''ann'' [] ''job_2'' 2000))) = ''job_1'' \<and>
   snd (startDiscovery busy_service True ''ann'' [] ''job_2'' 2000) = busy_service"
  using startDiscovery_existing_at_capacity [of busy_service "''ann''" 0 "[]" "''job_2''" 2000]
  by (simp add: busy_active busy_config busy_job)

section \<open>The state of a job over time\<close>

text \<open>
  C9 says that a job which is completed, failed, cancelled or timed out keeps that state.
  \<open>cancelJob\<close> marks the job cancelled, sets the flag \<open>job.cancelled\<close>, which nothing reads,
  and moves a copy to the history; the engine keeps running, and when its promise
  settles \<open>executeDiscovery\<close> writes \<open>completed\<close> (or \<open>failed\<close>) into the job and moves it to
  the history again, over the cancelled copy. The job of the run below is cancelled after
  its second step and completed after its third.
\<close>

theorem cancelled_job_becomes_completed:
  "getJobStatus (run_service (new_service default_service_config) (take 2 cancel_then_finish))
     ''job_1'' = Some Cancelled \<and>
   getJobStatus (run_service (new_service default_service_config) cancel_then_finish)
     ''job_1'' = Some Completed \<and>
   getJobStatus
     (run_service (new_service default_service_config)
        (take 2 cancel_then_finish @ [DiscoverySettled 0 (Inl ''User not found'') 9000]))
     ''job_1'' = Some Failed"
  by (simp add: cancel_then_finish_def run_service_def new_service_def
      default_service_config_def startDiscovery_def cancelJob_def executeDiscovery_begin_def
      executeDiscovery_settle_def moveJobToHistory_def map_delete_def getJobStatus_def Let_def)

text \<open>
  C7 says that a user with a job that is not over gets the id of that job from
  \<open>startDiscovery\<close>, and no second job. The \<open>finally\<close> block of \<open>executeDiscovery\<close> deletes the
  registry entry of the job's user, whichever job it holds, also for a job that was
  cancelled or timed out before. In the two runs below the first job of the user is
  cancelled, or timed out by the reaper, the user starts a second job, and then the
  promise of the first job settles: the second job is still in progress and waiting for
  the engine, but it is gone from the registry and unknown to \<open>getJobStatus\<close>, and the
  next \<open>startDiscovery\<close> of the user starts a third job beside it.
\<close>

theorem running_job_evicted:
  "job_id (heap after_restart 1) = ''job_2'' \<and>
   userId (heap after_restart 1) = ''ann'' \<and>
   status (heap after_restart 1) = InProgress \<and>
   pending after_restart = [1] \<and>
   activeJobs after_restart = [] \<and>
   getJobStatus after_restart ''job_2'' = None \<and>
   map_sum id s_jobId (fst (startDiscovery after_restart True ''ann'' [] ''job_3'' 9500))
     = Inr ''job_3'' \<and>
   pending (snd (startDiscovery after_restart True ''ann'' [] ''job_3'' 9500)) = [1, 2] \<and>
   job_id (heap after_timeout_restart 1) = ''job_2'' \<and>
   status (heap after_timeout_restart 1) = InProgress \<and>
   pending after_timeout_restart = [1] \<and>
   activeJobs after_timeout_restart = [] \<and>
   map_sum id s_jobId
     (fst (startDiscovery after_timeout_restart True ''ann'' [] ''job_3'' 403000))
     = Inr ''job_3''"
  by (simp add: after_restart_def restart_then_finish_def after_timeout_restart_def
      timeout_restart_then_finish_def run_service_def new_service_def
      default_service_config_def startDiscovery_def cancelJob_def cleanupStaleJobs_def
      executeDiscovery_begin_def executeDiscovery_settle_def moveJobToHistory_def
      map_delete_def getJobStatus_def Let_def)

end
